theory Spec2Isabelle
  imports Complex_Main "HOL-Library.AList"
begin

section \<open>Python values\<close>

text \<open>
  The program is dynamically typed: a candidate employee is a \<^verbatim>\<open>Dict[str, Any]\<close>, the roster
  and the payroll documents come back from \<^verbatim>\<open>json.load\<close>. The values the model ranges over
  are those a JSON document can hold.

  Numbers: \<^verbatim>\<open>bool\<close> is a subclass of \<^verbatim>\<open>int\<close> in Python, so \<^verbatim>\<open>isinstance(True, (int, float))\<close>
  holds and \<^verbatim>\<open>True\<close> counts as 1. A \<^verbatim>\<open>float\<close> is modelled by the rational number it denotes
  and arithmetic on amounts is exact: rounding errors of binary floating point, infinities
  and NaN are outside the model.

  Strings: a \<^typ>\<open>char\<close> stands for the code point of the same number (0 to 255); strings
  with code points above 255 are outside the model.
\<close>

datatype numero = NBool bool | NInt int | NFloat rat

fun valor :: "numero \<Rightarrow> rat" where
  "valor (NBool b) = (if b then 1 else 0)"
| "valor (NInt n) = of_int n"
| "valor (NFloat r) = r"

datatype pyval =
    PNone
  | PNum numero
  | PStr string
  | PList "pyval list"
  | PDict "(string \<times> pyval) list"

text \<open>
  The exceptions the modelled code can raise. The \<^verbatim>\<open>ValueError\<close>s of the validation decorator
  differ by their message only; each message is a constructor here.
\<close>

datatype excepcion =
    TypeError_no_diccionario    \<comment> \<open>\<^verbatim>\<open>TypeError("El empleado debe ser un diccionario.")\<close>\<close>
  | ValueError_faltan_campos    \<comment> \<open>\<^verbatim>\<open>ValueError("Faltan campos requeridos para el empleado.")\<close>\<close>
  | ValueError_sueldo           \<comment> \<open>\<^verbatim>\<open>ValueError("El sueldo debe ser un numero positivo.")\<close>\<close>
  | ValueError_cedula           \<comment> \<open>\<^verbatim>\<open>ValueError("La cedula debe ser un numero de 10 digitos exactamente.")\<close>\<close>
  | ValueError_texto string     \<comment> \<open>\<^verbatim>\<open>ValueError("El <campo> solo puede contener letras y espacios.")\<close>\<close>
  | TypeError_patron            \<comment> \<open>\<^verbatim>\<open>re.fullmatch\<close> on a value that is not a string\<close>
  | TypeError_argumentos        \<comment> \<open>\<^verbatim>\<open>Empleado(**e)\<close>: not a mapping, or a missing or unexpected keyword\<close>
  | TypeError_no_iterable       \<comment> \<open>\<^verbatim>\<open>for x in v\<close> on \<^verbatim>\<open>None\<close> or a number\<close>
  | TypeError_indice            \<comment> \<open>\<^verbatim>\<open>v['k']\<close> on a value that is not a dictionary\<close>
  | TypeError_aritmetica        \<comment> \<open>arithmetic on a value that is not a number\<close>
  | KeyError string
  | JSONDecodeError

text \<open>
  Python's \<^verbatim>\<open>==\<close>: numbers compare by value whatever their type, strings and \<^verbatim>\<open>None\<close> by
  identity of content, lists element by element, dictionaries key by key whatever the
  order of the keys; values of different kinds are unequal.
\<close>

fun py_eq :: "pyval \<Rightarrow> pyval \<Rightarrow> bool" where
  "py_eq PNone b = (b = PNone)"
| "py_eq (PNum x) b = (case b of PNum y \<Rightarrow> valor x = valor y | _ \<Rightarrow> False)"
| "py_eq (PStr s) b = (b = PStr s)"
| "py_eq (PList xs) (PList ys) = list_all2 py_eq xs ys"
| "py_eq (PList xs) _ = False"
| "py_eq (PDict kvs) (PDict kws) =
     (length kvs = length kws \<and>
      list_all (\<lambda>kv. case map_of kws (fst kv) of None \<Rightarrow> False
                                              | Some w \<Rightarrow> py_eq (snd kv) w) kvs)"
| "py_eq (PDict kvs) _ = False"

text \<open>Running a function over a list, stopping at the first exception, as a list
  comprehension does.\<close>

fun traverse :: "('a \<Rightarrow> excepcion + 'b) \<Rightarrow> 'a list \<Rightarrow> excepcion + 'b list" where
  "traverse f [] = Inr []"
| "traverse f (x # xs) =
     (case f x of
        Inl e \<Rightarrow> Inl e
      | Inr y \<Rightarrow> (case traverse f xs of Inl e \<Rightarrow> Inl e | Inr ys \<Rightarrow> Inr (y # ys)))"

text \<open>\<^verbatim>\<open>v[k]\<close> for a string key \<open>k\<close>.\<close>

fun subscript :: "pyval \<Rightarrow> string \<Rightarrow> excepcion + pyval" where
  "subscript (PDict kvs) k = (case map_of kvs k of None \<Rightarrow> Inl (KeyError k) | Some v \<Rightarrow> Inr v)"
| "subscript _ k = Inl TypeError_indice"

text \<open>\<^verbatim>\<open>for x in v\<close>: a list yields its elements, a dictionary its keys, a string its
  characters; nothing else in the model is iterable.\<close>

fun iterar :: "pyval \<Rightarrow> excepcion + pyval list" where
  "iterar (PList xs) = Inr xs"
| "iterar (PDict kvs) = Inr (map (\<lambda>kv. PStr (fst kv)) kvs)"
| "iterar (PStr s) = Inr (map (\<lambda>c. PStr [c]) s)"
| "iterar _ = Inl TypeError_no_iterable"

section \<open>Strings: \<^verbatim>\<open>str()\<close>, \<^verbatim>\<open>isdigit\<close> and the pattern of the text fields\<close>

text \<open>\<^verbatim>\<open>str.isdigit\<close> on the code points below 256: the ASCII digits and the superscripts
  two, three and one (U+00B2, U+00B3, U+00B9). The empty string has no digit.\<close>

definition es_digito :: "char \<Rightarrow> bool" where
  "es_digito c = (let n = (of_char c :: nat) in (48 \<le> n \<and> n \<le> 57) \<or> n = 178 \<or> n = 179 \<or> n = 185)"

definition isdigit :: "string \<Rightarrow> bool" where
  "isdigit s = (s \<noteq> [] \<and> list_all es_digito s)"

text \<open>\<^verbatim>\<open>str(n)\<close> for an integer: its decimal digits, after a minus sign when negative.\<close>

fun digitos :: "nat \<Rightarrow> string" where
  "digitos n = (if n < 10 then [char_of (48 + n)] else digitos (n div 10) @ [char_of (48 + n mod 10)])"

declare digitos.simps [simp del]

definition str_int :: "int \<Rightarrow> string" where
  "str_int n = (if n < 0 then CHR ''-'' # digitos (nat (- n)) else digitos (nat n))"

text \<open>
  The pattern \<^verbatim>\<open>^[a-zA-Z\s]+$\<close> under \<^verbatim>\<open>re.fullmatch\<close>: the whole string is one or more
  characters of the class. The class has the 52 ASCII letters and what \<^verbatim>\<open>\s\<close> matches in
  a \<^verbatim>\<open>str\<close> pattern: on the code points below 256 these are 9 to 13, 28 to 32, 133 and 160
  (the blank, tab, line feed and the other white space).
\<close>

definition es_letra :: "char \<Rightarrow> bool" where
  "es_letra c = (let n = (of_char c :: nat) in (65 \<le> n \<and> n \<le> 90) \<or> (97 \<le> n \<and> n \<le> 122))"

definition es_espacio :: "char \<Rightarrow> bool" where
  "es_espacio c = (let n = (of_char c :: nat) in (9 \<le> n \<and> n \<le> 13) \<or> (28 \<le> n \<and> n \<le> 32) \<or> n = 133 \<or> n = 160)"

definition fullmatch_letras :: "string \<Rightarrow> bool" where
  "fullmatch_letras s = (s \<noteq> [] \<and> list_all (\<lambda>c. es_letra c \<or> es_espacio c) s)"

section \<open>models.py: the validation decorator\<close>

text \<open>
  The checks of \<^verbatim>\<open>validate_empleado\<close>'s wrapper, in the order of the source. \<open>Inr kvs\<close> is
  reached when no check raised; the wrapper then calls the decorated function.

  \<^verbatim>\<open>str(empleado['cedula'])\<close> is the string itself for a string and the decimal digits for
  an integer. For every other value of the model (\<^verbatim>\<open>None\<close>, \<^verbatim>\<open>True\<close>, \<^verbatim>\<open>False\<close>, a float, a
  list, a dictionary) \<^verbatim>\<open>str()\<close> has a character that is no digit (a letter, a point, a
  bracket), so \<^verbatim>\<open>isdigit\<close> fails on it.
\<close>

fun cedula_str_valida :: "pyval \<Rightarrow> bool" where
  "cedula_str_valida (PStr s) = (\<not> (\<not> isdigit s \<or> length s \<noteq> 10))"
| "cedula_str_valida (PNum (NInt n)) = (\<not> (\<not> isdigit (str_int n) \<or> length (str_int n) \<noteq> 10))"
| "cedula_str_valida _ = False"

fun comprobar_texto :: "string \<Rightarrow> pyval \<Rightarrow> excepcion option" where
  "comprobar_texto campo (PStr s) = (if \<not> fullmatch_letras s then Some (ValueError_texto campo) else None)"
| "comprobar_texto campo _ = Some TypeError_patron"

definition comprobar :: "pyval \<Rightarrow> excepcion + (string \<times> pyval) list" where
  "comprobar empleado =
     (case empleado of
        PDict kvs \<Rightarrow>
          (case (map_of kvs ''cedula'', map_of kvs ''nombre'', map_of kvs ''sueldo'',
                 map_of kvs ''departamento'', map_of kvs ''cargo'') of
             (Some ced, Some nom, Some sue, Some dep, Some car) \<Rightarrow>
               if (case sue of PNum x \<Rightarrow> valor x \<le> 0 | _ \<Rightarrow> True) then Inl ValueError_sueldo
               else if \<not> cedula_str_valida ced then Inl ValueError_cedula
               else (case comprobar_texto ''nombre'' nom of
                       Some e \<Rightarrow> Inl e
                     | None \<Rightarrow>
                   (case comprobar_texto ''departamento'' dep of
                       Some e \<Rightarrow> Inl e
                     | None \<Rightarrow>
                   (case comprobar_texto ''cargo'' car of
                       Some e \<Rightarrow> Inl e
                     | None \<Rightarrow> Inr kvs)))
           | _ \<Rightarrow> Inl ValueError_faltan_campos)
      | _ \<Rightarrow> Inl TypeError_no_diccionario)"


section \<open>models.py: \<^verbatim>\<open>Empleado\<close>\<close>

text \<open>
  An \<^verbatim>\<open>Empleado\<close> object has the five attributes its constructor sets, and whatever
  attribute \<^verbatim>\<open>setattr\<close> adds later (\<open>e_extras\<close>, in the order of their creation, as in the
  object's \<^verbatim>\<open>__dict__\<close>). Nothing checks the type of an attribute.
\<close>

record Empleado =
  e_cedula :: pyval
  e_nombre :: pyval
  e_sueldo :: pyval
  e_departamento :: pyval
  e_cargo :: pyval
  e_extras :: "(string \<times> pyval) list"

definition Empleado_init :: "pyval \<Rightarrow> pyval \<Rightarrow> pyval \<Rightarrow> pyval \<Rightarrow> pyval \<Rightarrow> Empleado" where
  "Empleado_init cedula nombre sueldo departamento cargo =
     \<lparr>e_cedula = cedula, e_nombre = nombre, e_sueldo = sueldo,
      e_departamento = departamento, e_cargo = cargo, e_extras = []\<rparr>"

definition campos :: "string list" where
  "campos = [''cedula'', ''nombre'', ''sueldo'', ''departamento'', ''cargo'']"

text \<open>\<^verbatim>\<open>Empleado(**kvs)\<close>: the keys have to be exactly the five parameters.\<close>

definition Empleado_kw :: "(string \<times> pyval) list \<Rightarrow> excepcion + Empleado" where
  "Empleado_kw kvs =
     (case (map_of kvs ''cedula'', map_of kvs ''nombre'', map_of kvs ''sueldo'',
            map_of kvs ''departamento'', map_of kvs ''cargo'') of
        (Some ced, Some nom, Some sue, Some dep, Some car) \<Rightarrow>
          if list_all (\<lambda>kv. fst kv \<in> set campos) kvs
          then Inr (Empleado_init ced nom sue dep car)
          else Inl TypeError_argumentos
      | _ \<Rightarrow> Inl TypeError_argumentos)"

text \<open>\<^verbatim>\<open>Empleado(**e)\<close> for a value \<open>e\<close> read from a document.\<close>

fun Empleado_de :: "pyval \<Rightarrow> excepcion + Empleado" where
  "Empleado_de (PDict kvs) = Empleado_kw kvs"
| "Empleado_de _ = Inl TypeError_argumentos"

definition to_dict_e :: "Empleado \<Rightarrow> pyval" where
  "to_dict_e e =
     PDict ([(''cedula'', e_cedula e), (''nombre'', e_nombre e), (''sueldo'', e_sueldo e),
             (''departamento'', e_departamento e), (''cargo'', e_cargo e)] @ e_extras e)"

text \<open>\<^verbatim>\<open>setattr(e, key, value)\<close> and the attribute \<^verbatim>\<open>e.key\<close> (\<open>None\<close>: no such attribute).\<close>

definition setattr_e :: "Empleado \<Rightarrow> string \<Rightarrow> pyval \<Rightarrow> Empleado" where
  "setattr_e e key v =
     (if key = ''cedula'' then e\<lparr>e_cedula := v\<rparr>
      else if key = ''nombre'' then e\<lparr>e_nombre := v\<rparr>
      else if key = ''sueldo'' then e\<lparr>e_sueldo := v\<rparr>
      else if key = ''departamento'' then e\<lparr>e_departamento := v\<rparr>
      else if key = ''cargo'' then e\<lparr>e_cargo := v\<rparr>
      else e\<lparr>e_extras := AList.update key v (e_extras e)\<rparr>)"


section \<open>services.py: the repository and the roster\<close>

text \<open>
  The working directory: its entries by name. A file holds a JSON document, or text that
  \<^verbatim>\<open>json.load\<close> rejects. Writing a file replaces the entry of that name or adds one.
\<close>

datatype contenido = Ilegible | Json pyval

type_synonym directorio = "(string \<times> contenido) list"

definition cargar_datos :: "string \<Rightarrow> directorio \<Rightarrow> excepcion + pyval" where
  "cargar_datos archivo dir =
     (case map_of dir archivo of
        None \<Rightarrow> Inr (PList [])
      | Some Ilegible \<Rightarrow> Inl JSONDecodeError
      | Some (Json v) \<Rightarrow> Inr v)"

definition guardar_datos :: "string \<Rightarrow> pyval \<Rightarrow> directorio \<Rightarrow> directorio" where
  "guardar_datos archivo datos dir = AList.update archivo (Json datos) dir"

record GestorEmpleados =
  repo :: string
  empleados :: "Empleado list"

definition cargar_empleados :: "string \<Rightarrow> directorio \<Rightarrow> excepcion + Empleado list" where
  "cargar_empleados archivo dir =
     (case cargar_datos archivo dir of
        Inl e \<Rightarrow> Inl e
      | Inr datos \<Rightarrow>
          (case iterar datos of Inl e \<Rightarrow> Inl e | Inr es \<Rightarrow> traverse Empleado_de es))"

definition GestorEmpleados_init :: "string \<Rightarrow> directorio \<Rightarrow> excepcion + GestorEmpleados" where
  "GestorEmpleados_init archivo dir =
     (case cargar_empleados archivo dir of
        Inl e \<Rightarrow> Inl e
      | Inr es \<Rightarrow> Inr \<lparr>repo = archivo, empleados = es\<rparr>)"

definition guardar_empleados :: "GestorEmpleados \<Rightarrow> directorio \<Rightarrow> directorio" where
  "guardar_empleados g dir = guardar_datos (repo g) (PList (map to_dict_e (empleados g))) dir"



definition consultar_empleados :: "GestorEmpleados \<Rightarrow> Empleado list" where
  "consultar_empleados g = empleados g"

text \<open>\<^verbatim>\<open>next((e for e in self.empleados if e.cedula == cedula), None)\<close>, as the position
  of the employee found.\<close>

fun buscar :: "pyval \<Rightarrow> Empleado list \<Rightarrow> nat option" where
  "buscar cedula [] = None"
| "buscar cedula (e # es) =
     (if py_eq (e_cedula e) cedula then Some 0 else map_option Suc (buscar cedula es))"

definition aplicar_cambios :: "(string \<times> pyval) list \<Rightarrow> Empleado \<Rightarrow> Empleado" where
  "aplicar_cambios cambios e = foldl (\<lambda>e' kv. setattr_e e' (fst kv) (snd kv)) e cambios"

definition modificar_empleado ::
  "GestorEmpleados \<times> directorio \<Rightarrow> pyval \<Rightarrow> (string \<times> pyval) list
     \<Rightarrow> bool \<times> GestorEmpleados \<times> directorio" where
  "modificar_empleado self cedula cambios =
     (case self of (g, dir) \<Rightarrow>
        (case buscar cedula (empleados g) of
           None \<Rightarrow> (False, g, dir)
         | Some i \<Rightarrow>
             (let g' = g\<lparr>empleados := (empleados g)[i := aplicar_cambios cambios (empleados g ! i)]\<rparr>
              in (True, g', guardar_empleados g' dir))))"


section \<open>models.py: \<^verbatim>\<open>DetalleNomina\<close> and \<^verbatim>\<open>Nomina\<close>\<close>

text \<open>
  \<^verbatim>\<open>round(x, 2)\<close> on a float: the closest multiple of one hundredth, the even one of two
  that are equally close.
\<close>

definition round_half_even :: "rat \<Rightarrow> int" where
  "round_half_even x =
     (let f = \<lfloor>x\<rfloor>; r = x - of_int f
      in if r < 1 / 2 then f else if 1 / 2 < r then f + 1 else if even f then f else f + 1)"

definition py_round :: "rat \<Rightarrow> nat \<Rightarrow> rat" where
  "py_round x ndigits = of_int (round_half_even (x * 10 ^ ndigits)) / 10 ^ ndigits"

text \<open>
  A \<^verbatim>\<open>DetalleNomina\<close> object. The constructor computes with \<^verbatim>\<open>sueldo\<close>, \<^verbatim>\<open>bono\<close> and
  \<^verbatim>\<open>prestamo\<close>; when one of them is not a number one of its four arithmetic lines raises
  \<^verbatim>\<open>TypeError\<close> (\<^verbatim>\<open>sueldo * 0.0945\<close> at the latest, for two strings or two lists that
  \<^verbatim>\<open>+\<close> would concatenate) and no object exists. An object that exists therefore holds
  numbers there, with the type they came with; the four computed amounts are kept by
  value.
\<close>

record DetalleNomina =
  d_id :: pyval
  d_empleado :: Empleado
  d_sueldo :: numero
  d_bono :: numero
  d_tot_ing :: rat
  d_iess :: rat
  d_prestamo :: numero
  d_tot_des :: rat
  d_neto :: rat

definition DetalleNomina_init ::
  "pyval \<Rightarrow> Empleado \<Rightarrow> pyval \<Rightarrow> pyval \<Rightarrow> pyval \<Rightarrow> excepcion + DetalleNomina" where
  "DetalleNomina_init ident empleado sueldo bono prestamo =
     (case (sueldo, bono, prestamo) of
        (PNum s, PNum b, PNum p) \<Rightarrow>
          (let tot_ing = valor s + valor b;
               iess = py_round (valor s * (945 / 10000)) 2;
               tot_des = iess + valor p;
               neto = tot_ing - tot_des
           in Inr \<lparr>d_id = ident, d_empleado = empleado, d_sueldo = s, d_bono = b,
                   d_tot_ing = tot_ing, d_iess = iess, d_prestamo = p,
                   d_tot_des = tot_des, d_neto = neto\<rparr>)
      | _ \<Rightarrow> Inl TypeError_aritmetica)"

definition to_dict_d :: "DetalleNomina \<Rightarrow> pyval" where
  "to_dict_d d =
     PDict [(''id'', d_id d), (''empleado'', e_nombre (d_empleado d)),
            (''sueldo'', PNum (d_sueldo d)), (''bono'', PNum (d_bono d)),
            (''tot_ing'', PNum (NFloat (d_tot_ing d))), (''iess'', PNum (NFloat (d_iess d))),
            (''prestamo'', PNum (d_prestamo d)), (''tot_des'', PNum (NFloat (d_tot_des d))),
            (''neto'', PNum (NFloat (d_neto d)))]"

record Nomina =
  n_id :: pyval
  n_aniomes :: pyval
  n_tot_ing :: rat
  n_tot_des :: rat
  n_neto :: rat
  n_detalles :: "DetalleNomina list"

definition BONO :: numero where
  "BONO = NFloat 50"

definition PRESTAMO :: numero where
  "PRESTAMO = NFloat 20"

definition Nomina_init :: "pyval \<Rightarrow> pyval \<Rightarrow> Nomina" where
  "Nomina_init ident aniomes =
     \<lparr>n_id = ident, n_aniomes = aniomes, n_tot_ing = 0, n_tot_des = 0, n_neto = 0,
      n_detalles = []\<rparr>"

definition generar_detalle :: "Nomina \<Rightarrow> Empleado \<Rightarrow> int \<Rightarrow> excepcion + DetalleNomina" where
  "generar_detalle self empleado id_detalle =
     DetalleNomina_init (PNum (NInt id_detalle)) empleado (e_sueldo empleado)
       (PNum BONO) (PNum PRESTAMO)"

definition agregar_detalle :: "Nomina \<Rightarrow> DetalleNomina \<Rightarrow> Nomina" where
  "agregar_detalle self detalle =
     self\<lparr>n_detalles := n_detalles self @ [detalle],
          n_tot_ing := n_tot_ing self + d_tot_ing detalle,
          n_tot_des := n_tot_des self + d_tot_des detalle,
          n_neto := n_neto self + d_neto detalle\<rparr>"

definition to_dict_n :: "Nomina \<Rightarrow> pyval" where
  "to_dict_n n =
     PDict [(''id'', n_id n), (''aniomes'', n_aniomes n),
            (''tot_ing'', PNum (NFloat (n_tot_ing n))), (''tot_des'', PNum (NFloat (n_tot_des n))),
            (''neto'', PNum (NFloat (n_neto n))),
            (''detalles'', PList (map to_dict_d (n_detalles n)))]"

section \<open>services.py: \<^verbatim>\<open>GestorNominas\<close>\<close>

text \<open>
  Both methods return \<^verbatim>\<open>None\<close> on every path; what tells their outcomes apart is what
  they print and, for the generation, what they write. The model returns what is printed:
  the message for the generation, the message or the computed figures for the statistics.
  \<open>hoy\<close> is the value of \<^verbatim>\<open>datetime.date.today().strftime('%Y%m')\<close>.
\<close>

datatype salida_nomina = Sin_empleados | Nomina_generada string

fun bucle_detalles :: "Nomina \<Rightarrow> int \<Rightarrow> Empleado list \<Rightarrow> excepcion + Nomina" where
  "bucle_detalles nomina id_detalle [] = Inr nomina"
| "bucle_detalles nomina id_detalle (empleado # es) =
     (case generar_detalle nomina empleado id_detalle of
        Inl x \<Rightarrow> Inl x
      | Inr detalle \<Rightarrow> bucle_detalles (agregar_detalle nomina detalle) (id_detalle + 1) es)"

definition nombre_archivo_nomina :: "string \<Rightarrow> string" where
  "nombre_archivo_nomina aniomes = ''nomina_'' @ aniomes @ ''.json''"

definition generar_nomina_mensual ::
  "GestorEmpleados \<Rightarrow> string \<Rightarrow> directorio \<Rightarrow> excepcion + (salida_nomina \<times> directorio)" where
  "generar_nomina_mensual gestor_empleados hoy dir =
     (let es = consultar_empleados gestor_empleados
      in if es = [] then Inr (Sin_empleados, dir)
         else
           (let id_nomina = int (length dir) + 1;
                aniomes = hoy;
                nomina = Nomina_init (PNum (NInt id_nomina)) (PStr aniomes)
            in case bucle_detalles nomina 1 es of
                 Inl x \<Rightarrow> Inl x
               | Inr nomina' \<Rightarrow>
                   (let nombre_archivo = nombre_archivo_nomina aniomes
                    in Inr (Nomina_generada nombre_archivo,
                            AList.update nombre_archivo (Json (to_dict_n nomina')) dir))))"

text \<open>The \<^verbatim>\<open>DetalleNomina(...)\<close> call of the statistics, for one element of
  \<^verbatim>\<open>datos_nomina['detalles']\<close>: its arguments are evaluated from left to right.\<close>

definition detalle_de :: "pyval \<Rightarrow> excepcion + DetalleNomina" where
  "detalle_de d =
     (case subscript d ''id'' of Inl x \<Rightarrow> Inl x | Inr ident \<Rightarrow>
     (case subscript d ''empleado'' of Inl x \<Rightarrow> Inl x | Inr nombre \<Rightarrow>
     (case subscript d ''sueldo'' of Inl x \<Rightarrow> Inl x | Inr sueldo \<Rightarrow>
     (case subscript d ''bono'' of Inl x \<Rightarrow> Inl x | Inr bono \<Rightarrow>
     (case subscript d ''prestamo'' of Inl x \<Rightarrow> Inl x | Inr prestamo \<Rightarrow>
        DetalleNomina_init ident
          (Empleado_init (PStr []) nombre sueldo (PStr []) (PStr []))
          sueldo bono prestamo)))))"

definition reconstruir :: "pyval \<Rightarrow> excepcion + Nomina" where
  "reconstruir datos_nomina =
     (case subscript datos_nomina ''id'' of Inl x \<Rightarrow> Inl x | Inr ident \<Rightarrow>
     (case subscript datos_nomina ''aniomes'' of Inl x \<Rightarrow> Inl x | Inr aniomes \<Rightarrow>
     (case subscript datos_nomina ''detalles'' of Inl x \<Rightarrow> Inl x | Inr detalles \<Rightarrow>
     (case iterar detalles of Inl x \<Rightarrow> Inl x | Inr ds \<Rightarrow>
     (case traverse detalle_de ds of Inl x \<Rightarrow> Inl x | Inr ds' \<Rightarrow>
        Inr ((Nomina_init ident aniomes)\<lparr>n_detalles := ds'\<rparr>))))))"

text \<open>\<^verbatim>\<open>max(xs, key=f, default=None)\<close> and \<^verbatim>\<open>min(xs, key=f, default=None)\<close>: the element kept
  is replaced only by one whose key is strictly greater (strictly less).\<close>

fun max_key :: "('a \<Rightarrow> rat) \<Rightarrow> 'a list \<Rightarrow> 'a option" where
  "max_key f [] = None"
| "max_key f (x # xs) = Some (foldl (\<lambda>m y. if f m < f y then y else m) x xs)"

fun min_key :: "('a \<Rightarrow> rat) \<Rightarrow> 'a list \<Rightarrow> 'a option" where
  "min_key f [] = None"
| "min_key f (x # xs) = Some (foldl (\<lambda>m y. if f y < f m then y else m) x xs)"

record informe =
  total_empleados :: nat
  total_neto :: rat
  promedio_sueldos :: rat
  nombres_altos :: "pyval list"
  mayor_neto :: "DetalleNomina option"
  menor_neto :: "DetalleNomina option"

definition estadisticas :: "Nomina \<Rightarrow> informe" where
  "estadisticas nomina =
     (let sueldos = map (\<lambda>d. valor (d_sueldo d)) (n_detalles nomina);
          empleados_alto_sueldo = filter (\<lambda>d. 1000 < valor (d_sueldo d)) (n_detalles nomina)
      in \<lparr>total_empleados = length (n_detalles nomina),
          total_neto = foldl (\<lambda>acumulado detalle. acumulado + d_neto detalle) 0 (n_detalles nomina),
          promedio_sueldos =
            (if sueldos \<noteq> [] then foldl (+) 0 sueldos / of_nat (length sueldos) else 0),
          nombres_altos = map (\<lambda>d. e_nombre (d_empleado d)) empleados_alto_sueldo,
          mayor_neto = max_key d_neto (n_detalles nomina),
          menor_neto = min_key d_neto (n_detalles nomina)\<rparr>)"

datatype salida_estadisticas = Nomina_no_encontrada | Estadisticas informe

definition consultar_estadisticas_nomina ::
  "string \<Rightarrow> directorio \<Rightarrow> excepcion + salida_estadisticas" where
  "consultar_estadisticas_nomina aniomes dir =
     (case map_of dir (nombre_archivo_nomina aniomes) of
        None \<Rightarrow> Inr Nomina_no_encontrada
      | Some Ilegible \<Rightarrow> Inl JSONDecodeError
      | Some (Json datos_nomina) \<Rightarrow>
          (case reconstruir datos_nomina of
             Inl x \<Rightarrow> Inl x
           | Inr nomina \<Rightarrow> Inr (Estadisticas (estadisticas nomina))))"

section \<open>Specification-level notions and sample data\<close>

text \<open>The invariant of a payroll: each total is the sum of the corresponding amounts
  of its details.\<close>

definition totales_cuadran :: "Nomina \<Rightarrow> bool" where
  "totales_cuadran n =
     (n_tot_ing n = sum_list (map d_tot_ing (n_detalles n)) \<and>
      n_tot_des n = sum_list (map d_tot_des (n_detalles n)) \<and>
      n_neto n = sum_list (map d_neto (n_detalles n)))"

definition empleado_ana :: Empleado where
  "empleado_ana = Empleado_init (PStr ''0102030405'') (PStr ''Ana'') (PNum (NFloat 1000))
     (PStr ''Ventas'') (PStr ''Jefe'')"

definition empleado_beto :: Empleado where
  "empleado_beto = Empleado_init (PStr ''0607080910'') (PStr ''Beto'') (PNum (NInt 2000))
     (PStr ''Bodega'') (PStr ''Operario'')"




text \<open>The details of a stored payroll document, in their order, and the keys of a
  stored detail that the statistics read.\<close>

definition documento_detalles :: "pyval \<Rightarrow> excepcion + pyval list" where
  "documento_detalles datos =
     (case subscript datos ''detalles'' of Inl x \<Rightarrow> Inl x | Inr detalles \<Rightarrow> iterar detalles)"

definition campos_leidos :: "string list" where
  "campos_leidos = [''id'', ''empleado'', ''sueldo'', ''bono'', ''prestamo'']"

definition mismos_datos_leidos :: "pyval \<Rightarrow> pyval \<Rightarrow> bool" where
  "mismos_datos_leidos x y = list_all (\<lambda>k. subscript x k = subscript y k) campos_leidos"

text \<open>Two stored payrolls of five employees. They agree on what was paid in (name, base
  salary, bonus, loan); the first stores the derived amounts the generation computes, the
  second stores arbitrary values in their place.\<close>

definition detalle_doc ::
  "int \<Rightarrow> string \<Rightarrow> pyval \<Rightarrow> pyval \<Rightarrow> pyval \<Rightarrow> pyval \<Rightarrow> pyval \<Rightarrow> pyval" where
  "detalle_doc i nombre sueldo tot_ing iess tot_des neto =
     PDict [(''id'', PNum (NInt i)), (''empleado'', PStr nombre), (''sueldo'', sueldo),
            (''bono'', PNum (NFloat 50)), (''tot_ing'', tot_ing), (''iess'', iess),
            (''prestamo'', PNum (NFloat 20)), (''tot_des'', tot_des), (''neto'', neto)]"

definition nomina_doc_a :: pyval where
  "nomina_doc_a =
     PDict [(''id'', PNum (NInt 3)), (''aniomes'', PStr ''202401''),
            (''tot_ing'', PNum (NFloat 6250)), (''tot_des'', PNum (NFloat 667)),
            (''neto'', PNum (NFloat 5583)),
            (''detalles'', PList
               [detalle_doc 1 ''Ana'' (PNum (NFloat 900)) (PNum (NFloat 950))
                  (PNum (NFloat (8505 / 100))) (PNum (NFloat (10505 / 100)))
                  (PNum (NFloat (84495 / 100))),
                detalle_doc 2 ''Beto'' (PNum (NInt 1200)) (PNum (NFloat 1250))
                  (PNum (NFloat (1134 / 10))) (PNum (NFloat (1334 / 10)))
                  (PNum (NFloat (11166 / 10))),
                detalle_doc 3 ''Carla'' (PNum (NFloat 1500)) (PNum (NFloat 1550))
                  (PNum (NFloat (14175 / 100))) (PNum (NFloat (16175 / 100)))
                  (PNum (NFloat (138825 / 100))),
                detalle_doc 4 ''Dora'' (PNum (NFloat 1500)) (PNum (NFloat 1550))
                  (PNum (NFloat (14175 / 100))) (PNum (NFloat (16175 / 100)))
                  (PNum (NFloat (138825 / 100))),
                detalle_doc 5 ''Eva'' (PNum (NFloat 900)) (PNum (NFloat 950))
                  (PNum (NFloat (8505 / 100))) (PNum (NFloat (10505 / 100)))
                  (PNum (NFloat (84495 / 100)))])]"

definition nomina_doc_b :: pyval where
  "nomina_doc_b =
     PDict [(''id'', PNum (NInt 3)), (''aniomes'', PStr ''202401''),
            (''tot_ing'', PNum (NInt 0)), (''tot_des'', PStr ''?''), (''neto'', PNone),
            (''detalles'', PList
               [detalle_doc 1 ''Ana'' (PNum (NFloat 900)) (PNum (NFloat 1)) PNone (PStr ''x'')
                  (PNum (NFloat 99999)),
                detalle_doc 2 ''Beto'' (PNum (NInt 1200)) PNone PNone PNone PNone,
                detalle_doc 3 ''Carla'' (PNum (NFloat 1500)) (PNum (NInt 0)) (PNum (NInt 0))
                  (PNum (NInt 0)) (PNum (NInt 0)),
                detalle_doc 4 ''Dora'' (PNum (NFloat 1500)) (PNum (NFloat 1550))
                  (PNum (NFloat 0)) (PNum (NFloat 0)) (PNum (NFloat 1550)),
                detalle_doc 5 ''Eva'' (PNum (NFloat 900)) (PList []) (PList []) (PList [])
                  (PList [])])]"

text \<open>
  The field rules in the words of the specification. All five fields are supplied; the
  salary is a number greater than 0; the cedula is a string of exactly ten digits or an
  integer of exactly ten decimal digits; a text field is a string of one or more letters
  and spaces. A digit is what \<^verbatim>\<open>str.isdigit\<close> accepts, a letter is one of a-z and A-Z, a
  space is white space as \<^verbatim>\<open>\s\<close> matches it.
\<close>

definition regla_campos :: "(string \<times> pyval) list \<Rightarrow> bool" where
  "regla_campos kvs = list_all (\<lambda>k. map_of kvs k \<noteq> None) campos"





text \<open>Sample rosters and the candidate dictionary with the five fields in the order of
  the menu.\<close>

definition candidato :: "pyval \<Rightarrow> pyval \<Rightarrow> pyval \<Rightarrow> pyval \<Rightarrow> pyval \<Rightarrow> pyval" where
  "candidato cedula nombre sueldo departamento cargo =
     PDict [(''cedula'', cedula), (''nombre'', nombre), (''sueldo'', sueldo),
            (''departamento'', departamento), (''cargo'', cargo)]"

definition gestor_vacio :: GestorEmpleados where
  "gestor_vacio = \<lparr>repo = ''empleados.json'', empleados = []\<rparr>"

definition gestor_ana :: GestorEmpleados where
  "gestor_ana = \<lparr>repo = ''empleados.json'', empleados = [empleado_ana]\<rparr>"

text \<open>The directory that holds the saved roster of one employee, and the payroll document
  that the generation writes for that roster with a given run identifier.\<close>

definition nomina_doc_ana :: "int \<Rightarrow> pyval" where
  "nomina_doc_ana ident =
     PDict [(''id'', PNum (NInt ident)), (''aniomes'', PStr ''202401''),
            (''tot_ing'', PNum (NFloat 1050)), (''tot_des'', PNum (NFloat (1145 / 10))),
            (''neto'', PNum (NFloat (9355 / 10))),
            (''detalles'', PList
               [detalle_doc 1 ''Ana'' (PNum (NFloat 1000)) (PNum (NFloat 1050))
                  (PNum (NFloat (945 / 10))) (PNum (NFloat (1145 / 10)))
                  (PNum (NFloat (9355 / 10)))])]"

definition dir_roster_ana :: directorio where
  "dir_roster_ana =
     [(''empleados.json'',
       Json (PList [candidato (PStr ''0102030405'') (PStr ''Ana'') (PNum (NFloat 1000))
                      (PStr ''Ventas'') (PStr ''Jefe'')]))]"

text \<open>A well-formed roster record is a dictionary with exactly the five keys; it decodes
  to the employee that has its five values and no other attribute.\<close>

definition registro_bien_formado :: "pyval \<Rightarrow> bool" where
  "registro_bien_formado r =
     (case r of
        PDict kvs \<Rightarrow> regla_campos kvs \<and> list_all (\<lambda>kv. fst kv \<in> set campos) kvs
      | _ \<Rightarrow> False)"

definition decodifica :: "pyval \<Rightarrow> Empleado \<Rightarrow> bool" where
  "decodifica r e =
     (case r of
        PDict kvs \<Rightarrow>
          map (map_of kvs) campos
            = [Some (e_cedula e), Some (e_nombre e), Some (e_sueldo e),
               Some (e_departamento e), Some (e_cargo e)]
          \<and> e_extras e = []
      | _ \<Rightarrow> False)"

section \<open>Payroll lines\<close>





section \<open>Payroll totals\<close>

lemma agregar_detalle_cuadra: "totales_cuadran n \<Longrightarrow> totales_cuadran (agregar_detalle n d)"
  by (simp add: totales_cuadran_def agregar_detalle_def)

lemma foldl_agregar_detalles:
  "n_detalles (foldl agregar_detalle n ds) = n_detalles n @ ds"
  by (induction ds arbitrary: n) (simp_all add: agregar_detalle_def)

lemma foldl_agregar_cuadra:
  "totales_cuadran n \<Longrightarrow> totales_cuadran (foldl agregar_detalle n ds)"
  by (induction ds arbitrary: n) (simp_all add: agregar_detalle_cuadra)

lemma bucle_detalles_cuadra:
  "bucle_detalles n i es = Inr n' \<Longrightarrow> totales_cuadran n \<Longrightarrow> totales_cuadran n'"
proof (induction es arbitrary: n i)
  case Nil
  then show ?case by simp
next
  case (Cons e es)
  then show ?case
    by (auto split: sum.splits intro: agregar_detalle_cuadra)
qed

text \<open>
  Claim C2. A new payroll has the three totals equal to the sums over its (no) details;
  every append adds the detail's gross income, total deductions and net pay to the three
  running totals and so keeps them equal to the sums over the details appended so far:
  after any sequence of appends, and at the end of the loop of the monthly generation.
\<close>

theorem C2_totales_incrementales:
  "totales_cuadran (Nomina_init ident aniomes)
   \<and> (totales_cuadran n \<longrightarrow> totales_cuadran (agregar_detalle n d))
   \<and> n_detalles (agregar_detalle n d) = n_detalles n @ [d]
   \<and> n_tot_ing (agregar_detalle n d) = n_tot_ing n + d_tot_ing d
   \<and> n_tot_des (agregar_detalle n d) = n_tot_des n + d_tot_des d
   \<and> n_neto (agregar_detalle n d) = n_neto n + d_neto d
   \<and> n_detalles (foldl agregar_detalle (Nomina_init ident aniomes) ds) = ds
   \<and> totales_cuadran (foldl agregar_detalle (Nomina_init ident aniomes) ds)
   \<and> (bucle_detalles (Nomina_init ident aniomes) i es = Inr n' \<longrightarrow> totales_cuadran n')"
proof -
  have ini: "totales_cuadran (Nomina_init ident aniomes)"
    by (simp add: totales_cuadran_def Nomina_init_def)
  have dets: "n_detalles (foldl agregar_detalle (Nomina_init ident aniomes) ds) = ds"
    by (simp add: foldl_agregar_detalles Nomina_init_def)
  show ?thesis
    using ini dets foldl_agregar_cuadra [OF ini] bucle_detalles_cuadra [OF _ ini]
    by (auto simp: agregar_detalle_cuadra) (simp_all add: agregar_detalle_def)
qed

text \<open>The loop of the monthly generation on a roster of two employees.\<close>

theorem C2_totales_incrementales_witness:
  "\<exists>n'. bucle_detalles (Nomina_init (PNum (NInt 1)) (PStr ''202401'')) 1
           [empleado_ana, empleado_beto] = Inr n'
      \<and> totales_cuadran n' \<and> n_neto n' = 5553 / 2
      \<and> totales_cuadran (agregar_detalle n' (hd (n_detalles n')))"
proof -
  obtain n' where b: "bucle_detalles (Nomina_init (PNum (NInt 1)) (PStr ''202401'')) 1
      [empleado_ana, empleado_beto] = Inr n'"
    and v: "n_neto n' = 5553 / 2"
    by (auto simp add: Nomina_init_def generar_detalle_def DetalleNomina_init_def
        empleado_ana_def empleado_beto_def Empleado_init_def BONO_def PRESTAMO_def
        agregar_detalle_def py_round_def round_half_even_def Let_def)
  have c: "totales_cuadran n'"
    using C2_totales_incrementales [of "PNum (NInt 1)" "PStr ''202401''" n'
        "hd (n_detalles n')" "[]" 1 "[empleado_ana, empleado_beto]" n'] b
    by blast
  have "totales_cuadran (agregar_detalle n' (hd (n_detalles n')))"
    using C2_totales_incrementales [of "PNum (NInt 1)" "PStr ''202401''" n'
        "hd (n_detalles n')" "[]" 1 "[empleado_ana, empleado_beto]" n'] c
    by blast
  with b v c show ?thesis by blast
qed

section \<open>Statistics\<close>










lemma traverse_cong_all2:
  "list_all2 (\<lambda>x y. f x = f y) xs ys \<Longrightarrow> traverse f xs = traverse f ys"
  by (induction rule: list_all2_induct) (simp_all cong: sum.case_cong)

lemma detalle_de_campos:
  "detalle_de x = Inr d \<Longrightarrow>
     subscript x ''empleado'' = Inr (e_nombre (d_empleado d))
     \<and> subscript x ''sueldo'' = Inr (PNum (d_sueldo d))
     \<and> subscript x ''bono'' = Inr (PNum (d_bono d))
     \<and> subscript x ''prestamo'' = Inr (PNum (d_prestamo d))
     \<and> subscript x ''id'' = Inr (d_id d)
     \<and> d_tot_ing d = valor (d_sueldo d) + valor (d_bono d)
     \<and> d_iess d = py_round (valor (d_sueldo d) * (945 / 10000)) 2
     \<and> d_tot_des d = d_iess d + valor (d_prestamo d)
     \<and> d_neto d = d_tot_ing d - d_tot_des d"
  unfolding detalle_de_def DetalleNomina_init_def Empleado_init_def
  by (auto split: sum.splits pyval.splits simp: Let_def)






lemma mismos_detalle_de: "mismos_datos_leidos x y \<Longrightarrow> detalle_de x = detalle_de y"
  unfolding mismos_datos_leidos_def campos_leidos_def detalle_de_def
  by (simp cong: sum.case_cong)

lemma estadisticas_detalles:
  "n_detalles n = n_detalles m \<Longrightarrow> estadisticas n = estadisticas m"
  by (simp add: estadisticas_def)

text \<open>
  Claim C10. Two stored payroll documents whose details agree, one by one, on \<^verbatim>\<open>id\<close>,
  \<^verbatim>\<open>empleado\<close>, \<^verbatim>\<open>sueldo\<close>, \<^verbatim>\<open>bono\<close> and \<^verbatim>\<open>prestamo\<close> give the same statistics (or the same
  exception), whatever they store as \<^verbatim>\<open>tot_ing\<close>, \<^verbatim>\<open>iess\<close>, \<^verbatim>\<open>tot_des\<close>, \<^verbatim>\<open>neto\<close> and as
  totals of the document: every derived amount of a rebuilt detail is computed from its
  \<^verbatim>\<open>sueldo\<close>, \<^verbatim>\<open>bono\<close> and \<^verbatim>\<open>prestamo\<close>.
\<close>

theorem C10_estadisticas_recalculadas:
  assumes "map_of dir1 (nombre_archivo_nomina aniomes) = Some (Json a)"
    and "map_of dir2 (nombre_archivo_nomina aniomes) = Some (Json b)"
    and "subscript a ''id'' = Inr ia" and "subscript a ''aniomes'' = Inr pa"
    and "subscript b ''id'' = Inr ib" and "subscript b ''aniomes'' = Inr pb"
    and "documento_detalles a = Inr xs" and "documento_detalles b = Inr ys"
    and "list_all2 mismos_datos_leidos xs ys"
  shows "consultar_estadisticas_nomina aniomes dir1 = consultar_estadisticas_nomina aniomes dir2
    \<and> (\<forall>x d. detalle_de x = Inr d \<longrightarrow>
          subscript x ''sueldo'' = Inr (PNum (d_sueldo d))
        \<and> subscript x ''bono'' = Inr (PNum (d_bono d))
        \<and> subscript x ''prestamo'' = Inr (PNum (d_prestamo d))
        \<and> d_tot_ing d = valor (d_sueldo d) + valor (d_bono d)
        \<and> d_iess d = py_round (valor (d_sueldo d) * (945 / 10000)) 2
        \<and> d_tot_des d = d_iess d + valor (d_prestamo d)
        \<and> d_neto d = d_tot_ing d - d_tot_des d)"
proof
  have tr: "traverse detalle_de xs = traverse detalle_de ys"
    by (rule traverse_cong_all2) (rule list_all2_mono [OF assms(9)], simp add: mismos_detalle_de)
  have "(case reconstruir a of Inl x \<Rightarrow> Inl x | Inr n \<Rightarrow> Inr (Estadisticas (estadisticas n)))
      = (case reconstruir b of Inl x \<Rightarrow> Inl x | Inr n \<Rightarrow> Inr (Estadisticas (estadisticas n)))"
    using assms(3-8) tr
    unfolding reconstruir_def documento_detalles_def
    by (auto split: sum.splits intro: estadisticas_detalles)
  then show "consultar_estadisticas_nomina aniomes dir1 = consultar_estadisticas_nomina aniomes dir2"
    unfolding consultar_estadisticas_nomina_def using assms(1,2) by simp
  show "\<forall>x d. detalle_de x = Inr d \<longrightarrow>
          subscript x ''sueldo'' = Inr (PNum (d_sueldo d))
        \<and> subscript x ''bono'' = Inr (PNum (d_bono d))
        \<and> subscript x ''prestamo'' = Inr (PNum (d_prestamo d))
        \<and> d_tot_ing d = valor (d_sueldo d) + valor (d_bono d)
        \<and> d_iess d = py_round (valor (d_sueldo d) * (945 / 10000)) 2
        \<and> d_tot_des d = d_iess d + valor (d_prestamo d)
        \<and> d_neto d = d_tot_ing d - d_tot_des d"
    using detalle_de_campos by blast
qed

text \<open>The two sample payrolls differ in every stored derived amount and give the same
  statistics.\<close>

theorem C10_estadisticas_recalculadas_witness:
  "nomina_doc_a \<noteq> nomina_doc_b
   \<and> consultar_estadisticas_nomina ''202401'' [(''nomina_202401.json'', Json nomina_doc_a)]
     = consultar_estadisticas_nomina ''202401'' [(''nomina_202401.json'', Json nomina_doc_b)]"
proof
  show "nomina_doc_a \<noteq> nomina_doc_b"
    by (simp add: nomina_doc_a_def nomina_doc_b_def)
  have 1: "map_of [(''nomina_202401.json'', Json nomina_doc_a)] (nombre_archivo_nomina ''202401'')
      = Some (Json nomina_doc_a)"
    and 2: "map_of [(''nomina_202401.json'', Json nomina_doc_b)] (nombre_archivo_nomina ''202401'')
      = Some (Json nomina_doc_b)"
    by (simp_all add: nombre_archivo_nomina_def)
  have 3: "subscript nomina_doc_a ''id'' = Inr (PNum (NInt 3))"
    and 4: "subscript nomina_doc_a ''aniomes'' = Inr (PStr ''202401'')"
    and 5: "subscript nomina_doc_b ''id'' = Inr (PNum (NInt 3))"
    and 6: "subscript nomina_doc_b ''aniomes'' = Inr (PStr ''202401'')"
    by (simp_all add: nomina_doc_a_def nomina_doc_b_def)
  obtain xs ys where 7: "documento_detalles nomina_doc_a = Inr xs"
    and 8: "documento_detalles nomina_doc_b = Inr ys"
    and 9: "list_all2 mismos_datos_leidos xs ys"
    by (simp add: documento_detalles_def nomina_doc_a_def nomina_doc_b_def
        mismos_datos_leidos_def campos_leidos_def detalle_doc_def)
  from C10_estadisticas_recalculadas [OF 1 2 3 4 5 6 7 8 9]
  show "consultar_estadisticas_nomina ''202401'' [(''nomina_202401.json'', Json nomina_doc_a)]
     = consultar_estadisticas_nomina ''202401'' [(''nomina_202401.json'', Json nomina_doc_b)]"
    by blast
qed

section \<open>Validation\<close>
















section \<open>The roster\<close>










text \<open>
  Claim C5. \<^verbatim>\<open>modificar_empleado\<close> applies the supplied values as they come: a negative
  salary is stored and saved, and the method returns \<^verbatim>\<open>True\<close>, although the checks of the
  validation decorator refuse the employee that results.
\<close>

theorem C5_modificar_sin_validar:
  "modificar_empleado (gestor_ana, []) (PStr ''0102030405'') [(''sueldo'', PNum (NFloat (- 5)))]
     = (True,
        \<lparr>repo = ''empleados.json'', empleados = [empleado_ana\<lparr>e_sueldo := PNum (NFloat (- 5))\<rparr>]\<rparr>,
        [(''empleados.json'',
          Json (PList [candidato (PStr ''0102030405'') (PStr ''Ana'') (PNum (NFloat (- 5)))
                         (PStr ''Ventas'') (PStr ''Jefe'')]))])
   \<and> comprobar (candidato (PStr ''0102030405'') (PStr ''Ana'') (PNum (NFloat (- 5)))
                 (PStr ''Ventas'') (PStr ''Jefe''))
     = Inl ValueError_sueldo"
  by (simp add: modificar_empleado_def gestor_ana_def empleado_ana_def Empleado_init_def
      aplicar_cambios_def setattr_e_def guardar_empleados_def guardar_datos_def to_dict_e_def
      candidato_def comprobar_def Let_def)





section \<open>Payroll generation and the stored document\<close>

lemma length_update:
  "length (AList.update k v al) = (if k \<in> fst ` set al then length al else Suc (length al))"
  by (induction al) auto

lemma bucle_detalles_cabecera:
  "bucle_detalles n i es = Inr n' \<Longrightarrow> n_id n' = n_id n \<and> n_aniomes n' = n_aniomes n"
proof (induction es arbitrary: n i)
  case Nil
  then show ?case by simp
next
  case (Cons e es)
  then show ?case
    by (auto split: sum.splits simp: agregar_detalle_def)
qed

lemma generar_escribe:
  assumes "generar_nomina_mensual g hoy dir = Inr (Nomina_generada f, dir')"
  shows "f = nombre_archivo_nomina hoy
    \<and> (\<exists>doc. dir' = AList.update f (Json doc) dir
         \<and> subscript doc ''id'' = Inr (PNum (NInt (int (length dir) + 1)))
         \<and> subscript doc ''aniomes'' = Inr (PStr hoy))"
proof -
  from assms obtain n' where
    b: "bucle_detalles (Nomina_init (PNum (NInt (int (length dir) + 1))) (PStr hoy)) 1
          (empleados g) = Inr n'"
    and f: "f = nombre_archivo_nomina hoy"
    and d: "dir' = AList.update f (Json (to_dict_n n')) dir"
    unfolding generar_nomina_mensual_def consultar_empleados_def Let_def
    by (auto split: if_splits sum.splits)
  from bucle_detalles_cabecera [OF b]
  have "subscript (to_dict_n n') ''id'' = Inr (PNum (NInt (int (length dir) + 1)))"
    and "subscript (to_dict_n n') ''aniomes'' = Inr (PStr hoy)"
    by (simp_all add: to_dict_n_def Nomina_init_def)
  with f d show ?thesis by blast
qed

lemma generar_sin_empleados:
  "generar_nomina_mensual g hoy dir = Inr (Sin_empleados, dir') \<Longrightarrow> dir' = dir"
  unfolding generar_nomina_mensual_def Let_def
  by (auto split: if_splits sum.splits)

text \<open>
  Claim C8, as amended. A generation that writes a payroll writes the one file
  \<^verbatim>\<open>nomina_<period>.json\<close> for the period of the day, with the number of directory entries
  plus one as run identifier, and leaves every other file as it was; the directory gains
  an entry only when no file of that name existed. A second generation for the same period
  therefore adds no document: it replaces the content of the same file, and its run
  identifier is again the number of directory entries plus one, one more than the first
  only when the first call created the file.
\<close>

theorem C8_nomina_sobrescrita:
  "generar_nomina_mensual g hoy dir = Inr (Nomina_generada f, dir') \<longrightarrow>
      f = nombre_archivo_nomina hoy
    \<and> (\<exists>doc. map_of dir' f = Some (Json doc)
         \<and> subscript doc ''id'' = Inr (PNum (NInt (int (length dir) + 1)))
         \<and> subscript doc ''aniomes'' = Inr (PStr hoy))
    \<and> (\<forall>nombre. nombre \<noteq> f \<longrightarrow> map_of dir' nombre = map_of dir nombre)
    \<and> fst ` set dir' = insert f (fst ` set dir)
    \<and> length dir' = (if f \<in> fst ` set dir then length dir else Suc (length dir))
    \<and> (\<forall>g2 s2 dir2. generar_nomina_mensual g2 hoy dir' = Inr (s2, dir2) \<longrightarrow>
          fst ` set dir2 = fst ` set dir' \<and> length dir2 = length dir'
          \<and> (s2 \<noteq> Sin_empleados \<longrightarrow>
               (\<exists>doc2. map_of dir2 f = Some (Json doc2)
                  \<and> subscript doc2 ''id'' = Inr (PNum (NInt (int (length dir') + 1))))))"
proof
  assume a: "generar_nomina_mensual g hoy dir = Inr (Nomina_generada f, dir')"
  from generar_escribe [OF a] obtain doc where
    f: "f = nombre_archivo_nomina hoy"
    and d: "dir' = AList.update f (Json doc) dir"
    and i: "subscript doc ''id'' = Inr (PNum (NInt (int (length dir) + 1)))"
    and p: "subscript doc ''aniomes'' = Inr (PStr hoy)"
    by blast
  have 1: "\<exists>doc. map_of dir' f = Some (Json doc)
         \<and> subscript doc ''id'' = Inr (PNum (NInt (int (length dir) + 1)))
         \<and> subscript doc ''aniomes'' = Inr (PStr hoy)"
    using d i p by (simp add: update_conv')
  have 2: "\<forall>nombre. nombre \<noteq> f \<longrightarrow> map_of dir' nombre = map_of dir nombre"
    by (simp add: d update_conv')
  have 3: "fst ` set dir' = insert f (fst ` set dir)"
    by (simp add: d dom_update)
  have 4: "length dir' = (if f \<in> fst ` set dir then length dir else Suc (length dir))"
    by (simp add: d length_update)
  have 5: "fst ` set dir2 = fst ` set dir' \<and> length dir2 = length dir'
          \<and> (s2 \<noteq> Sin_empleados \<longrightarrow>
               (\<exists>doc2. map_of dir2 f = Some (Json doc2)
                  \<and> subscript doc2 ''id'' = Inr (PNum (NInt (int (length dir') + 1)))))"
    if b: "generar_nomina_mensual g2 hoy dir' = Inr (s2, dir2)" for g2 s2 dir2
  proof (cases s2)
    case Sin_empleados
    with b have "dir2 = dir'" by (simp add: generar_sin_empleados)
    then show ?thesis using Sin_empleados by simp
  next
    case (Nomina_generada f2)
    from generar_escribe [OF b [unfolded Nomina_generada]] obtain doc2 where
      f2: "f2 = nombre_archivo_nomina hoy"
      and d2: "dir2 = AList.update f2 (Json doc2) dir'"
      and i2: "subscript doc2 ''id'' = Inr (PNum (NInt (int (length dir') + 1)))"
      by blast
    have ff: "f2 = f" using f f2 by simp
    have "f \<in> fst ` set dir'" using 3 by simp
    then have "fst ` set dir2 = fst ` set dir'" and "length dir2 = length dir'"
      by (auto simp: d2 ff dom_update length_update)
    moreover have "map_of dir2 f = Some (Json doc2)"
      by (simp add: d2 ff update_conv')
    ultimately show ?thesis using i2 by blast
  qed
  from f 1 2 3 4 5
  show "f = nombre_archivo_nomina hoy
    \<and> (\<exists>doc. map_of dir' f = Some (Json doc)
         \<and> subscript doc ''id'' = Inr (PNum (NInt (int (length dir) + 1)))
         \<and> subscript doc ''aniomes'' = Inr (PStr hoy))
    \<and> (\<forall>nombre. nombre \<noteq> f \<longrightarrow> map_of dir' nombre = map_of dir nombre)
    \<and> fst ` set dir' = insert f (fst ` set dir)
    \<and> length dir' = (if f \<in> fst ` set dir then length dir else Suc (length dir))
    \<and> (\<forall>g2 s2 dir2. generar_nomina_mensual g2 hoy dir' = Inr (s2, dir2) \<longrightarrow>
          fst ` set dir2 = fst ` set dir' \<and> length dir2 = length dir'
          \<and> (s2 \<noteq> Sin_empleados \<longrightarrow>
               (\<exists>doc2. map_of dir2 f = Some (Json doc2)
                  \<and> subscript doc2 ''id'' = Inr (PNum (NInt (int (length dir') + 1))))))"
    by (intro conjI allI impI) auto
qed

text \<open>
  The claim as stated fails: after two generations for the period 202401 the directory
  holds the roster and one payroll file, whose content is the document of the second run;
  the document of the first run (identifier 2) is gone.
\<close>

theorem C8_nomina_sobrescrita_counterexample:
  "generar_nomina_mensual gestor_ana ''202401'' dir_roster_ana
     = Inr (Nomina_generada ''nomina_202401.json'',
            dir_roster_ana @ [(''nomina_202401.json'', Json (nomina_doc_ana 2))])
   \<and> generar_nomina_mensual gestor_ana ''202401''
       (dir_roster_ana @ [(''nomina_202401.json'', Json (nomina_doc_ana 2))])
     = Inr (Nomina_generada ''nomina_202401.json'',
            dir_roster_ana @ [(''nomina_202401.json'', Json (nomina_doc_ana 3))])
   \<and> map fst (dir_roster_ana @ [(''nomina_202401.json'', Json (nomina_doc_ana 3))])
     = [''empleados.json'', ''nomina_202401.json'']"
  by (simp add: generar_nomina_mensual_def consultar_empleados_def gestor_ana_def
      empleado_ana_def Empleado_init_def Nomina_init_def generar_detalle_def
      DetalleNomina_init_def BONO_def PRESTAMO_def agregar_detalle_def py_round_def
      round_half_even_def nombre_archivo_nomina_def to_dict_n_def to_dict_d_def
      nomina_doc_ana_def detalle_doc_def dir_roster_ana_def candidato_def Let_def)


text \<open>The first generation in the directory that holds only the roster.\<close>

theorem C8_nomina_sobrescrita_witness:
  "\<exists>dir'. generar_nomina_mensual gestor_ana ''202401'' dir_roster_ana
             = Inr (Nomina_generada ''nomina_202401.json'', dir')
     \<and> length dir' = 2
     \<and> fst ` set dir' = {''nomina_202401.json'', ''empleados.json''}
     \<and> map_of dir' ''empleados.json'' = map_of dir_roster_ana ''empleados.json''"
proof -
  obtain dir' where g: "generar_nomina_mensual gestor_ana ''202401'' dir_roster_ana
             = Inr (Nomina_generada ''nomina_202401.json'', dir')"
    by (simp add: generar_nomina_mensual_def consultar_empleados_def gestor_ana_def
        empleado_ana_def Empleado_init_def generar_detalle_def DetalleNomina_init_def
        BONO_def PRESTAMO_def nombre_archivo_nomina_def Let_def)
  note t = C8_nomina_sobrescrita [of gestor_ana "''202401''" dir_roster_ana
      "''nomina_202401.json''" dir', THEN mp, OF g]
  have "length dir' = 2"
    using t [THEN conjunct2, THEN conjunct2, THEN conjunct2, THEN conjunct2, THEN conjunct1]
    by (simp add: dir_roster_ana_def)
  moreover have "fst ` set dir' = {''nomina_202401.json'', ''empleados.json''}"
    using t [THEN conjunct2, THEN conjunct2, THEN conjunct2, THEN conjunct1]
    by (simp add: dir_roster_ana_def)
  moreover have "map_of dir' ''empleados.json'' = map_of dir_roster_ana ''empleados.json''"
    using t [THEN conjunct2, THEN conjunct2, THEN conjunct1, rule_format, of "''empleados.json''"]
    by simp
  ultimately show ?thesis
    by (intro exI [of _ dir'] conjI g)
qed

section \<open>Loading the roster\<close>

lemma traverse_Empleado_de:
  "list_all registro_bien_formado rs \<Longrightarrow>
     \<exists>es. traverse Empleado_de rs = Inr es \<and> list_all2 decodifica rs es"
proof (induction rs)
  case Nil
  then show ?case by simp
next
  case (Cons r rs)
  then obtain es where es: "traverse Empleado_de rs = Inr es" "list_all2 decodifica rs es"
    by auto
  from Cons.prems obtain kvs where r: "r = PDict kvs" "regla_campos kvs"
    "list_all (\<lambda>kv. fst kv \<in> set campos) kvs"
    by (auto simp: registro_bien_formado_def split: pyval.splits)
  from r(2) obtain ced nom sue dep car where m:
    "map_of kvs ''cedula'' = Some ced" "map_of kvs ''nombre'' = Some nom"
    "map_of kvs ''sueldo'' = Some sue" "map_of kvs ''departamento'' = Some dep"
    "map_of kvs ''cargo'' = Some car"
    unfolding regla_campos_def campos_def by auto
  have e: "Empleado_de r = Inr (Empleado_init ced nom sue dep car)"
    using r(1,3) m by (simp add: Empleado_kw_def)
  have "decodifica r (Empleado_init ced nom sue dep car)"
    using r(1) m by (simp add: decodifica_def campos_def Empleado_init_def)
  with e es show ?case by auto
qed

lemma Empleado_de_bien_formado: "registro_bien_formado r \<Longrightarrow> \<exists>e. Empleado_de r = Inr e"
  using traverse_Empleado_de [of "[r]"] by (auto split: sum.splits)

lemma traverse_Empleado_de_mal:
  "\<not> list_all registro_bien_formado rs \<Longrightarrow> traverse Empleado_de rs = Inl TypeError_argumentos"
proof (induction rs)
  case Nil
  then show ?case by simp
next
  case (Cons r rs)
  have k: "Empleado_de r = Inl TypeError_argumentos" if "\<not> registro_bien_formado r"
  proof (cases r)
    case (PDict kvs)
    with that show ?thesis
      by (auto simp: registro_bien_formado_def regla_campos_def campos_def Empleado_kw_def
          split: option.splits)
  qed simp_all
  show ?case
  proof (cases "registro_bien_formado r")
    case False
    then show ?thesis by (simp add: k)
  next
    case True
    with Cons have "traverse Empleado_de rs = Inl TypeError_argumentos" by simp
    moreover from True obtain e where "Empleado_de r = Inr e"
      using Empleado_de_bien_formado by blast
    ultimately show ?thesis by simp
  qed
qed

text \<open>
  Claim C9, as amended. At startup the roster is empty when the roster file is missing,
  and is the sequence of decoded employees, in order, when the file holds a JSON array of
  well-formed records. A file that is not JSON, an array with a record that lacks one of
  the five keys, has another key or is not an object, and a document that is \<^verbatim>\<open>null\<close> or a
  number do not give an empty roster: the constructor raises \<^verbatim>\<open>JSONDecodeError\<close> or
  \<^verbatim>\<open>TypeError\<close>.
\<close>

theorem C9_carga_inicial:
  "(map_of dir archivo = None \<longrightarrow>
      GestorEmpleados_init archivo dir = Inr \<lparr>repo = archivo, empleados = []\<rparr>)
   \<and> (map_of dir archivo = Some (Json (PList rs)) \<and> list_all registro_bien_formado rs \<longrightarrow>
      (\<exists>es. GestorEmpleados_init archivo dir = Inr \<lparr>repo = archivo, empleados = es\<rparr>
          \<and> list_all2 decodifica rs es))
   \<and> (map_of dir archivo = Some Ilegible \<longrightarrow>
      GestorEmpleados_init archivo dir = Inl JSONDecodeError)
   \<and> (map_of dir archivo = Some (Json (PList rs)) \<and> \<not> list_all registro_bien_formado rs \<longrightarrow>
      GestorEmpleados_init archivo dir = Inl TypeError_argumentos)
   \<and> (map_of dir archivo = Some (Json PNone) \<or> map_of dir archivo = Some (Json (PNum x)) \<longrightarrow>
      GestorEmpleados_init archivo dir = Inl TypeError_no_iterable)"
proof (intro conjI impI)
  assume "map_of dir archivo = None"
  then show "GestorEmpleados_init archivo dir = Inr \<lparr>repo = archivo, empleados = []\<rparr>"
    by (simp add: GestorEmpleados_init_def cargar_empleados_def cargar_datos_def)
next
  assume a: "map_of dir archivo = Some (Json (PList rs)) \<and> list_all registro_bien_formado rs"
  then obtain es where "traverse Empleado_de rs = Inr es" "list_all2 decodifica rs es"
    using traverse_Empleado_de by blast
  then show "\<exists>es. GestorEmpleados_init archivo dir = Inr \<lparr>repo = archivo, empleados = es\<rparr>
          \<and> list_all2 decodifica rs es"
    using a by (simp add: GestorEmpleados_init_def cargar_empleados_def cargar_datos_def)
next
  assume "map_of dir archivo = Some Ilegible"
  then show "GestorEmpleados_init archivo dir = Inl JSONDecodeError"
    by (simp add: GestorEmpleados_init_def cargar_empleados_def cargar_datos_def)
next
  assume "map_of dir archivo = Some (Json (PList rs)) \<and> \<not> list_all registro_bien_formado rs"
  then show "GestorEmpleados_init archivo dir = Inl TypeError_argumentos"
    by (simp add: GestorEmpleados_init_def cargar_empleados_def cargar_datos_def
        traverse_Empleado_de_mal)
next
  assume "map_of dir archivo = Some (Json PNone) \<or> map_of dir archivo = Some (Json (PNum x))"
  then show "GestorEmpleados_init archivo dir = Inl TypeError_no_iterable"
    by (auto simp: GestorEmpleados_init_def cargar_empleados_def cargar_datos_def)
qed

text \<open>
  The claim as stated fails on a malformed document: a roster file that is not JSON, or
  whose record has only a cedula, makes the constructor raise.
\<close>

theorem C9_carga_inicial_counterexample:
  "GestorEmpleados_init ''empleados.json'' [(''empleados.json'', Ilegible)] = Inl JSONDecodeError
   \<and> GestorEmpleados_init ''empleados.json''
       [(''empleados.json'', Json (PList [PDict [(''cedula'', PStr ''0102030405'')]]))]
     = Inl TypeError_argumentos"
  by (simp add: GestorEmpleados_init_def cargar_empleados_def cargar_datos_def Empleado_kw_def)

text \<open>Startup with no roster file, with the saved roster of one employee, and with a
  file that is not JSON.\<close>

theorem C9_carga_inicial_witness:
  "GestorEmpleados_init ''empleados.json'' [] = Inr gestor_vacio
   \<and> GestorEmpleados_init ''empleados.json'' dir_roster_ana = Inr gestor_ana
   \<and> GestorEmpleados_init ''empleados.json'' [(''empleados.json'', Ilegible)]
     = Inl JSONDecodeError"
proof -
  let ?rs = "[candidato (PStr ''0102030405'') (PStr ''Ana'') (PNum (NFloat 1000))
                      (PStr ''Ventas'') (PStr ''Jefe'')]"
  have 1: "map_of ([] :: directorio) ''empleados.json'' = None" by simp
  have 2: "map_of dir_roster_ana ''empleados.json'' = Some (Json (PList ?rs))
      \<and> list_all registro_bien_formado ?rs"
    by (simp add: dir_roster_ana_def registro_bien_formado_def candidato_def regla_campos_def
        campos_def)
  have 3: "map_of [(''empleados.json'', Ilegible)] ''empleados.json'' = Some Ilegible" by simp
  from C9_carga_inicial [of "[]" "''empleados.json''" ?rs "NInt 0", THEN conjunct1, THEN mp, OF 1]
  have a: "GestorEmpleados_init ''empleados.json'' [] = Inr gestor_vacio"
    by (simp add: gestor_vacio_def)
  from C9_carga_inicial [of dir_roster_ana "''empleados.json''" ?rs "NInt 0",
      THEN conjunct2, THEN conjunct1, THEN mp, OF 2]
  obtain es where es: "GestorEmpleados_init ''empleados.json'' dir_roster_ana
      = Inr \<lparr>repo = ''empleados.json'', empleados = es\<rparr>"
    and d: "list_all2 decodifica ?rs es"
    by (elim exE conjE) (rule that; assumption)
  from d obtain e where e: "es = [e]" "decodifica (hd ?rs) e"
    by (auto simp: list_all2_Cons1)
  from e(2) have "e = empleado_ana"
    by (simp add: decodifica_def candidato_def campos_def empleado_ana_def Empleado_init_def)
  with es e(1) have b: "GestorEmpleados_init ''empleados.json'' dir_roster_ana = Inr gestor_ana"
    by (simp add: gestor_ana_def)
  from C9_carga_inicial [of "[(''empleados.json'', Ilegible)]" "''empleados.json''" ?rs "NInt 0",
      THEN conjunct2, THEN conjunct2, THEN conjunct1, THEN mp, OF 3]
  have c: "GestorEmpleados_init ''empleados.json'' [(''empleados.json'', Ilegible)]
     = Inl JSONDecodeError" .
  from a b c show ?thesis by (intro conjI)
qed

end
